theory Spec2Isabelle
  imports Main "HOL-Library.Word"
begin

section \<open>The Runner API types of package v1alpha1 (api/v1alpha1/runner\_types.go)\<close>

subsection \<open>Types of the imported Kubernetes packages\<close>

text \<open>
  \<^verbatim>\<open>runner_types.go\<close> imports \<^verbatim>\<open>k8s.io/api/core/v1\<close> (corev1) and
  \<^verbatim>\<open>k8s.io/apimachinery/pkg/apis/meta/v1\<close> (metav1). The pod and container
  descriptions of corev1 are only stored in a \<^verbatim>\<open>RunnerSpec\<close>: no function of the
  package looks inside them. The struct types that occur only behind a slice or a pointer
  are therefore left unspecified.
\<close>

typedecl corev1_Container
typedecl corev1_VolumeMount
typedecl corev1_EnvFromSource
typedecl corev1_EnvVar
typedecl corev1_Volume
typedecl corev1_PodSecurityContext
typedecl corev1_LocalObjectReference
typedecl corev1_Affinity
typedecl corev1_Toleration
typedecl corev1_EphemeralContainer
typedecl resource_Quantity

text \<open>
  \<^verbatim>\<open>corev1.ResourceRequirements\<close> is held by value (fields
  \<^verbatim>\<open>DockerdContainerResources\<close> and \<^verbatim>\<open>Resources\<close>): two resource lists, each a Go map
  from a resource name to a quantity. \<^verbatim>\<open>corev1.PullPolicy\<close> is a named string type.
\<close>

record corev1_ResourceRequirements =
  Limits :: "string \<rightharpoonup> resource_Quantity"
  Requests :: "string \<rightharpoonup> resource_Quantity"

type_synonym corev1_PullPolicy = string

text \<open>
  \<^verbatim>\<open>metav1.TypeMeta\<close> and \<^verbatim>\<open>metav1.ObjectMeta\<close> are embedded in \<^verbatim>\<open>Runner\<close>.
  Of the object metadata only the identity (name and namespace) is kept;
  nothing in the package reads the metadata.
\<close>

record metav1_TypeMeta =
  Kind :: string
  APIVersion :: string

record metav1_ObjectMeta =
  Name :: string
  Namespace :: string

text \<open>
  \<^verbatim>\<open>metav1.Time\<close> wraps Go's \<^verbatim>\<open>time.Time\<close>, an instant of absolute time with
  nanosecond resolution. The instant is modelled by its (unbounded) count of nanoseconds
  since the Unix epoch. The durations \<^verbatim>\<open>time.Minute\<close> and \<^verbatim>\<open>time.Hour\<close> are Go's
  constants, counts of nanoseconds.
\<close>

datatype metav1_Time = Time (UnixNano: int)

definition time_Minute :: int where
  "time_Minute = 60000000000"

definition time_Hour :: int where
  "time_Hour = 60 * time_Minute"

text \<open>
  \<^verbatim>\<open>func (t *Time) Before(u *Time) bool\<close> of metav1: with both pointers non-nil it is
  \<^verbatim>\<open>t.Time.Before(u.Time)\<close>, which reports whether the instant \<^verbatim>\<open>t\<close> is before \<^verbatim>\<open>u\<close>
  (two equal instants are not before one another); with a nil pointer it is false.
  A pointer is an option.
\<close>

fun Before :: "metav1_Time option \<Rightarrow> metav1_Time option \<Rightarrow> bool" where
  "Before (Some t) (Some u) = (UnixNano t < UnixNano u)"
| "Before _ _ = False"

subsection \<open>RunnerSpec and ValidateRepository\<close>

text \<open>
  \<^verbatim>\<open>RunnerSpec\<close>, the desired state of a Runner, field by field in the order of the
  source. A slice is a list, a pointer an option, a Go map a map, \<^verbatim>\<open>int64\<close> a 64-bit
  word.
\<close>

record RunnerSpec =
  Enterprise :: string
  Organization :: string
  Repository :: string
  Labels :: "string list"
  Group :: string
  Ephemeral :: "bool option"
  Containers :: "corev1_Container list"
  DockerdContainerResources :: corev1_ResourceRequirements
  DockerVolumeMounts :: "corev1_VolumeMount list"
  Resources :: corev1_ResourceRequirements
  VolumeMounts :: "corev1_VolumeMount list"
  EnvFrom :: "corev1_EnvFromSource list"
  Image :: string
  ImagePullPolicy :: corev1_PullPolicy
  Env :: "corev1_EnvVar list"
  Volumes :: "corev1_Volume list"
  WorkDir :: string
  InitContainers :: "corev1_Container list"
  SidecarContainers :: "corev1_Container list"
  NodeSelector :: "string \<rightharpoonup> string"
  ServiceAccountName :: string
  AutomountServiceAccountToken :: "bool option"
  SecurityContext :: "corev1_PodSecurityContext option"
  ImagePullSecrets :: "corev1_LocalObjectReference list"
  Affinity :: "corev1_Affinity option"
  Tolerations :: "corev1_Toleration list"
  EphemeralContainers :: "corev1_EphemeralContainer list"
  TerminationGracePeriodSeconds :: "64 word option"
  DockerdWithinRunnerContainer :: "bool option"
  DockerEnabled :: "bool option"
  DockerMTU :: "64 word option"

text \<open>
  A Go \<^verbatim>\<open>error\<close> built by \<^verbatim>\<open>errors.New\<close> carries its message; the \<^verbatim>\<open>error\<close> result
  of a function is \<open>None\<close> for \<^verbatim>\<open>nil\<close>.
\<close>

datatype error = errors_New string

text \<open>
  \<^verbatim>\<open>func (rs *RunnerSpec) ValidateRepository() error\<close>. The local counter
  \<^verbatim>\<open>foundCount\<close> is a Go \<^verbatim>\<open>int\<close>; it is incremented at most three times from 0, so it
  never leaves the range of the machine integer and is modelled by \<open>int\<close>. \<^verbatim>\<open>len\<close> of a
  Go string is its number of bytes, the length of the character list.
\<close>

definition ValidateRepository :: "RunnerSpec \<Rightarrow> error option" where
  "ValidateRepository rs =
    (let foundCount = (0::int);
         foundCount = (if length (RunnerSpec.Organization rs) > 0 then foundCount + 1 else foundCount);
         foundCount = (if length (RunnerSpec.Repository rs) > 0 then foundCount + 1 else foundCount);
         foundCount = (if length (RunnerSpec.Enterprise rs) > 0 then foundCount + 1 else foundCount)
     in if foundCount = 0 then
          Some (errors_New ''Spec needs enterprise, organization or repository'')
        else if foundCount > 1 then
          Some (errors_New ''Spec cannot have many fields defined enterprise, organization and repository'')
        else None)"

subsection \<open>RunnerStatus, Runner and IsRegisterable\<close>

record RunnerStatusRegistration =
  Enterprise :: string
  Organization :: string
  Repository :: string
  Labels :: "string list"
  Token :: string
  ExpiresAt :: metav1_Time

record RunnerStatus =
  Registration :: RunnerStatusRegistration
  Phase :: string
  Reason :: string
  Message :: string
  LastRegistrationCheckTime :: "metav1_Time option"

record Runner =
  TypeMeta :: metav1_TypeMeta
  ObjectMeta :: metav1_ObjectMeta
  Spec :: RunnerSpec
  Status :: RunnerStatus

text \<open>
  \<^verbatim>\<open>func (r Runner) IsRegisterable() bool\<close>. The body reads the wall clock once,
  \<^verbatim>\<open>now := metav1.Now()\<close>; the value read is the second argument \<open>now\<close>. Both
  operands of \<^verbatim>\<open>Before\<close> are addresses of variables, hence non-nil pointers. Go's
  \<^verbatim>\<open>!=\<close> and \<^verbatim>\<open>==\<close> on strings compare them byte by byte.
\<close>

definition IsRegisterable :: "Runner \<Rightarrow> metav1_Time \<Rightarrow> bool" where
  "IsRegisterable r now =
    (if RunnerStatusRegistration.Repository (Registration (Status r)) \<noteq> RunnerSpec.Repository (Spec r) then False
     else if Token (Registration (Status r)) = '''' then False
     else if Before (Some (ExpiresAt (Registration (Status r)))) (Some now) then False
     else True)"

subsection \<open>Zero values\<close>

text \<open>
  A Go composite literal such as \<^verbatim>\<open>RunnerSpec{Repository: "org/repo"}\<close> sets the named
  fields and leaves every other field at the zero value of its type: the empty string,
  the nil slice, map or pointer. The zero \<^verbatim>\<open>time.Time\<close> is January 1 of year 1, 00:00 UTC,
  that is 62135596800 seconds before the Unix epoch. The concrete Runners below are written
  as updates of these zero values.
\<close>

definition ResourceRequirements_zero :: corev1_ResourceRequirements where
  "ResourceRequirements_zero = \<lparr>Limits = Map.empty, Requests = Map.empty\<rparr>"

definition RunnerSpec_zero :: RunnerSpec where
  "RunnerSpec_zero =
    \<lparr>RunnerSpec.Enterprise = '''', RunnerSpec.Organization = '''', RunnerSpec.Repository = '''',
     RunnerSpec.Labels = [], Group = '''', Ephemeral = None, Containers = [],
     DockerdContainerResources = ResourceRequirements_zero, DockerVolumeMounts = [],
     Resources = ResourceRequirements_zero, VolumeMounts = [], EnvFrom = [],
     Image = '''', ImagePullPolicy = '''', Env = [], Volumes = [], WorkDir = '''',
     InitContainers = [], SidecarContainers = [], NodeSelector = Map.empty,
     ServiceAccountName = '''', AutomountServiceAccountToken = None, SecurityContext = None,
     ImagePullSecrets = [], Affinity = None, Tolerations = [], EphemeralContainers = [],
     TerminationGracePeriodSeconds = None, DockerdWithinRunnerContainer = None,
     DockerEnabled = None, DockerMTU = None\<rparr>"

definition Time_zero :: metav1_Time where
  "Time_zero = Time (- 62135596800000000000)"

definition RunnerStatusRegistration_zero :: RunnerStatusRegistration where
  "RunnerStatusRegistration_zero =
    \<lparr>RunnerStatusRegistration.Enterprise = '''', RunnerStatusRegistration.Organization = '''',
     RunnerStatusRegistration.Repository = '''', RunnerStatusRegistration.Labels = [],
     Token = '''', ExpiresAt = Time_zero\<rparr>"

definition RunnerStatus_zero :: RunnerStatus where
  "RunnerStatus_zero =
    \<lparr>Registration = RunnerStatusRegistration_zero, Phase = '''', Reason = '''', Message = '''',
     LastRegistrationCheckTime = None\<rparr>"

definition Runner_zero :: Runner where
  "Runner_zero =
    \<lparr>TypeMeta = \<lparr>Kind = '''', APIVersion = ''''\<rparr>, ObjectMeta = \<lparr>Name = '''', Namespace = ''''\<rparr>,
     Spec = RunnerSpec_zero, Status = RunnerStatus_zero\<rparr>"

section \<open>Properties\<close>

lemmas zero_values = Runner_zero_def RunnerSpec_zero_def RunnerStatus_zero_def
  RunnerStatusRegistration_zero_def Time_zero_def ResourceRequirements_zero_def

lemmas durations = time_Hour_def time_Minute_def

text \<open>
  The concrete clock reading used in the examples is
  \<open>Time 1609459200000000000\<close>, that is 2021-01-01T00:00:00Z.
\<close>

subsection \<open>IsRegisterable\<close>

text \<open>
  C1 (as amended). For every Runner and every clock reading \<open>now\<close>: if the registration's
  \<^verbatim>\<open>ExpiresAt\<close> is strictly before \<open>now\<close>, then \<^verbatim>\<open>IsRegisterable\<close> returns false.
  Read the other way round, a registration counts as valid only when \<^verbatim>\<open>ExpiresAt\<close> is at
  or after the current instant. The claim as written also rejects a registration that
  expires exactly at \<open>now\<close>; the code does not, since \<^verbatim>\<open>Before\<close> is a strict comparison.
\<close>

theorem IsRegisterable_expired_false:
  assumes "UnixNano (ExpiresAt (Registration (Status r))) < UnixNano now"
  shows "IsRegisterable r now = False"
  using assms by (simp add: IsRegisterable_def)

text \<open>
  Witness for C1, the spec's scenario B: repository \<^verbatim>\<open>org/repo\<close> on both sides, token
  \<^verbatim>\<open>abc\<close>, \<^verbatim>\<open>ExpiresAt\<close> one minute before \<open>now\<close>.
\<close>

theorem IsRegisterable_expired_false_witness:
  "UnixNano (ExpiresAt (Registration (Status
      (Runner_zero\<lparr>Spec := RunnerSpec_zero\<lparr>RunnerSpec.Repository := ''org/repo''\<rparr>,
         Status := RunnerStatus_zero\<lparr>Registration := RunnerStatusRegistration_zero
           \<lparr>RunnerStatusRegistration.Repository := ''org/repo'', Token := ''abc'',
          ExpiresAt := Time (1609459200000000000 - time_Minute)\<rparr>\<rparr>\<rparr>))))
     < UnixNano (Time 1609459200000000000)
   \<and> IsRegisterable
      (Runner_zero\<lparr>Spec := RunnerSpec_zero\<lparr>RunnerSpec.Repository := ''org/repo''\<rparr>,
         Status := RunnerStatus_zero\<lparr>Registration := RunnerStatusRegistration_zero
           \<lparr>RunnerStatusRegistration.Repository := ''org/repo'', Token := ''abc'',
          ExpiresAt := Time (1609459200000000000 - time_Minute)\<rparr>\<rparr>\<rparr>)
      (Time 1609459200000000000) = False"
proof -
  have h: "UnixNano (ExpiresAt (Registration (Status
      (Runner_zero\<lparr>Spec := RunnerSpec_zero\<lparr>RunnerSpec.Repository := ''org/repo''\<rparr>,
         Status := RunnerStatus_zero\<lparr>Registration := RunnerStatusRegistration_zero
           \<lparr>RunnerStatusRegistration.Repository := ''org/repo'', Token := ''abc'',
          ExpiresAt := Time (1609459200000000000 - time_Minute)\<rparr>\<rparr>\<rparr>))))
     < UnixNano (Time 1609459200000000000)"
    by (simp add: durations)
  from h IsRegisterable_expired_false [OF h] show ?thesis by (rule conjI)
qed

text \<open>
  Counterexample to C1 as written: \<^verbatim>\<open>ExpiresAt\<close> equal to \<open>now\<close> is ``at or before
  now'', the repository echo matches and the token is \<^verbatim>\<open>abc\<close>, yet \<^verbatim>\<open>IsRegisterable\<close>
  does not return false.
\<close>

theorem IsRegisterable_expiresAt_equal_now_counterexample:
  "UnixNano (ExpiresAt (Registration (Status
      (Runner_zero\<lparr>Spec := RunnerSpec_zero\<lparr>RunnerSpec.Repository := ''org/repo''\<rparr>,
         Status := RunnerStatus_zero\<lparr>Registration := RunnerStatusRegistration_zero
           \<lparr>RunnerStatusRegistration.Repository := ''org/repo'', Token := ''abc'',
          ExpiresAt := Time 1609459200000000000\<rparr>\<rparr>\<rparr>))))
     \<le> UnixNano (Time 1609459200000000000)
   \<and> IsRegisterable
      (Runner_zero\<lparr>Spec := RunnerSpec_zero\<lparr>RunnerSpec.Repository := ''org/repo''\<rparr>,
         Status := RunnerStatus_zero\<lparr>Registration := RunnerStatusRegistration_zero
           \<lparr>RunnerStatusRegistration.Repository := ''org/repo'', Token := ''abc'',
          ExpiresAt := Time 1609459200000000000\<rparr>\<rparr>\<rparr>)
      (Time 1609459200000000000) \<noteq> False"
  by (simp add: IsRegisterable_def zero_values)

text \<open>
  C2 (as amended). For a Runner whose spec has organization \<^verbatim>\<open>acme\<close> and empty enterprise
  and repository, and whose registration has repository \<^verbatim>\<open>""\<close>, token \<^verbatim>\<open>abc\<close> and
  \<^verbatim>\<open>ExpiresAt\<close> one hour after \<open>now\<close>, \<^verbatim>\<open>IsRegisterable\<close> returns true: the only scope
  comparison of the code is between the two repository fields, and both are empty.
\<close>

theorem IsRegisterable_organization_scope_true:
  assumes "RunnerSpec.Enterprise (Spec r) = ''''"
    and "RunnerSpec.Organization (Spec r) = ''acme''"
    and "RunnerSpec.Repository (Spec r) = ''''"
    and "RunnerStatusRegistration.Repository (Registration (Status r)) = ''''"
    and "Token (Registration (Status r)) = ''abc''"
    and "ExpiresAt (Registration (Status r)) = Time (UnixNano now + time_Hour)"
  shows "IsRegisterable r now = True"
  using assms by (simp add: IsRegisterable_def durations)

text \<open>Witness for C2: the Runner of scenario C, built from the zero values.\<close>

theorem IsRegisterable_organization_scope_true_witness:
  "RunnerSpec.Enterprise (Spec
      (Runner_zero\<lparr>Spec := RunnerSpec_zero\<lparr>RunnerSpec.Organization := ''acme''\<rparr>,
         Status := RunnerStatus_zero\<lparr>Registration := RunnerStatusRegistration_zero
           \<lparr>RunnerStatusRegistration.Repository := '''', Token := ''abc'',
          ExpiresAt := Time (1609459200000000000 + time_Hour)\<rparr>\<rparr>\<rparr>)) = ''''
   \<and> RunnerSpec.Organization (Spec
      (Runner_zero\<lparr>Spec := RunnerSpec_zero\<lparr>RunnerSpec.Organization := ''acme''\<rparr>,
         Status := RunnerStatus_zero\<lparr>Registration := RunnerStatusRegistration_zero
           \<lparr>RunnerStatusRegistration.Repository := '''', Token := ''abc'',
          ExpiresAt := Time (1609459200000000000 + time_Hour)\<rparr>\<rparr>\<rparr>)) = ''acme''
   \<and> IsRegisterable
      (Runner_zero\<lparr>Spec := RunnerSpec_zero\<lparr>RunnerSpec.Organization := ''acme''\<rparr>,
         Status := RunnerStatus_zero\<lparr>Registration := RunnerStatusRegistration_zero
           \<lparr>RunnerStatusRegistration.Repository := '''', Token := ''abc'',
          ExpiresAt := Time (1609459200000000000 + time_Hour)\<rparr>\<rparr>\<rparr>)
      (Time 1609459200000000000) = True"
proof -
  let ?r = "(Runner_zero\<lparr>Spec := RunnerSpec_zero\<lparr>RunnerSpec.Organization := ''acme''\<rparr>,
         Status := RunnerStatus_zero\<lparr>Registration := RunnerStatusRegistration_zero
           \<lparr>RunnerStatusRegistration.Repository := '''', Token := ''abc'',
          ExpiresAt := Time (1609459200000000000 + time_Hour)\<rparr>\<rparr>\<rparr>)"
  have h1: "RunnerSpec.Enterprise (Spec ?r) = ''''"
    and h2: "RunnerSpec.Organization (Spec ?r) = ''acme''"
    and h3: "RunnerSpec.Repository (Spec ?r) = ''''"
    and h4: "RunnerStatusRegistration.Repository (Registration (Status ?r)) = ''''"
    and h5: "Token (Registration (Status ?r)) = ''abc''"
    and h6: "ExpiresAt (Registration (Status ?r)) = Time (UnixNano (Time 1609459200000000000) + time_Hour)"
    by (simp_all add: zero_values)
  from h1 h2 IsRegisterable_organization_scope_true [OF h1 h2 h3 h4 h5 h6]
  show ?thesis by (intro conjI)
qed

text \<open>
  Counterexample to C2 as written: on the Runner of scenario C the result is not false.
\<close>

theorem IsRegisterable_organization_scope_counterexample:
  "IsRegisterable
      (Runner_zero\<lparr>Spec := RunnerSpec_zero\<lparr>RunnerSpec.Organization := ''acme''\<rparr>,
         Status := RunnerStatus_zero\<lparr>Registration := RunnerStatusRegistration_zero
           \<lparr>RunnerStatusRegistration.Repository := '''', Token := ''abc'',
          ExpiresAt := Time (1609459200000000000 + time_Hour)\<rparr>\<rparr>\<rparr>)
      (Time 1609459200000000000) \<noteq> False"
  by (simp add: IsRegisterable_def zero_values durations)

text \<open>
  C3. For every Runner whose registration token is the empty string, \<^verbatim>\<open>IsRegisterable\<close>
  returns false, whatever the other fields of the spec and of the status and whatever the
  clock reading.
\<close>

theorem IsRegisterable_empty_token_false:
  assumes "Token (Registration (Status r)) = ''''"
  shows "IsRegisterable r now = False"
  using assms by (simp add: IsRegisterable_def)

text \<open>
  Witness for C3: matching repository and an expiry one hour ahead, but an empty token.
\<close>

theorem IsRegisterable_empty_token_false_witness:
  "Token (Registration (Status
      (Runner_zero\<lparr>Spec := RunnerSpec_zero\<lparr>RunnerSpec.Repository := ''org/repo'', Group := ''pool''\<rparr>,
         Status := RunnerStatus_zero\<lparr>Registration := RunnerStatusRegistration_zero
           \<lparr>RunnerStatusRegistration.Repository := ''org/repo'', Token := '''',
          ExpiresAt := Time (1609459200000000000 + time_Hour)\<rparr>\<rparr>\<rparr>))) = ''''
   \<and> IsRegisterable
      (Runner_zero\<lparr>Spec := RunnerSpec_zero\<lparr>RunnerSpec.Repository := ''org/repo'', Group := ''pool''\<rparr>,
         Status := RunnerStatus_zero\<lparr>Registration := RunnerStatusRegistration_zero
           \<lparr>RunnerStatusRegistration.Repository := ''org/repo'', Token := '''',
          ExpiresAt := Time (1609459200000000000 + time_Hour)\<rparr>\<rparr>\<rparr>)
      (Time 1609459200000000000) = False"
proof -
  have h: "Token (Registration (Status
      (Runner_zero\<lparr>Spec := RunnerSpec_zero\<lparr>RunnerSpec.Repository := ''org/repo'', Group := ''pool''\<rparr>,
         Status := RunnerStatus_zero\<lparr>Registration := RunnerStatusRegistration_zero
           \<lparr>RunnerStatusRegistration.Repository := ''org/repo'', Token := '''',
          ExpiresAt := Time (1609459200000000000 + time_Hour)\<rparr>\<rparr>\<rparr>))) = ''''"
    by (simp add: zero_values)
  from h IsRegisterable_empty_token_false [OF h] show ?thesis by (rule conjI)
qed

text \<open>
  C4. For every Runner whose registration's repository differs from the spec's repository
  (as strings, byte by byte, hence case-sensitively), \<^verbatim>\<open>IsRegisterable\<close> returns false,
  also when the token is non-empty and \<^verbatim>\<open>ExpiresAt\<close> is strictly after \<open>now\<close>.
\<close>

theorem IsRegisterable_repository_mismatch_false:
  assumes "RunnerStatusRegistration.Repository (Registration (Status r)) \<noteq>
    RunnerSpec.Repository (Spec r)"
  shows "IsRegisterable r now = False"
  using assms by (simp add: IsRegisterable_def)

text \<open>
  Witness for C4: the echo \<^verbatim>\<open>Org/Repo\<close> differs from the desired \<^verbatim>\<open>org/repo\<close> only in
  case; the token is \<^verbatim>\<open>abc\<close> and the expiry one hour ahead.
\<close>

theorem IsRegisterable_repository_mismatch_false_witness:
  "RunnerStatusRegistration.Repository (Registration (Status
      (Runner_zero\<lparr>Spec := RunnerSpec_zero\<lparr>RunnerSpec.Repository := ''org/repo''\<rparr>,
         Status := RunnerStatus_zero\<lparr>Registration := RunnerStatusRegistration_zero
           \<lparr>RunnerStatusRegistration.Repository := ''Org/Repo'', Token := ''abc'',
          ExpiresAt := Time (1609459200000000000 + time_Hour)\<rparr>\<rparr>\<rparr>)))
     \<noteq> RunnerSpec.Repository (Spec
      (Runner_zero\<lparr>Spec := RunnerSpec_zero\<lparr>RunnerSpec.Repository := ''org/repo''\<rparr>,
         Status := RunnerStatus_zero\<lparr>Registration := RunnerStatusRegistration_zero
           \<lparr>RunnerStatusRegistration.Repository := ''Org/Repo'', Token := ''abc'',
          ExpiresAt := Time (1609459200000000000 + time_Hour)\<rparr>\<rparr>\<rparr>))
   \<and> IsRegisterable
      (Runner_zero\<lparr>Spec := RunnerSpec_zero\<lparr>RunnerSpec.Repository := ''org/repo''\<rparr>,
         Status := RunnerStatus_zero\<lparr>Registration := RunnerStatusRegistration_zero
           \<lparr>RunnerStatusRegistration.Repository := ''Org/Repo'', Token := ''abc'',
          ExpiresAt := Time (1609459200000000000 + time_Hour)\<rparr>\<rparr>\<rparr>)
      (Time 1609459200000000000) = False"
proof -
  have h: "RunnerStatusRegistration.Repository (Registration (Status
      (Runner_zero\<lparr>Spec := RunnerSpec_zero\<lparr>RunnerSpec.Repository := ''org/repo''\<rparr>,
         Status := RunnerStatus_zero\<lparr>Registration := RunnerStatusRegistration_zero
           \<lparr>RunnerStatusRegistration.Repository := ''Org/Repo'', Token := ''abc'',
          ExpiresAt := Time (1609459200000000000 + time_Hour)\<rparr>\<rparr>\<rparr>)))
     \<noteq> RunnerSpec.Repository (Spec
      (Runner_zero\<lparr>Spec := RunnerSpec_zero\<lparr>RunnerSpec.Repository := ''org/repo''\<rparr>,
         Status := RunnerStatus_zero\<lparr>Registration := RunnerStatusRegistration_zero
           \<lparr>RunnerStatusRegistration.Repository := ''Org/Repo'', Token := ''abc'',
          ExpiresAt := Time (1609459200000000000 + time_Hour)\<rparr>\<rparr>\<rparr>))"
    by (simp add: zero_values)
  from h IsRegisterable_repository_mismatch_false [OF h] show ?thesis by (rule conjI)
qed

text \<open>
  C5. For every Runner whose registration's repository equals the spec's repository, whose
  token is non-empty and whose \<^verbatim>\<open>ExpiresAt\<close> is strictly after \<open>now\<close>, \<^verbatim>\<open>IsRegisterable\<close>
  returns true. In particular (scenario A) it returns true whenever the spec's repository
  and the registration's repository are both \<^verbatim>\<open>org/repo\<close>, the token is \<^verbatim>\<open>abc\<close> and
  \<^verbatim>\<open>ExpiresAt\<close> is one hour after \<open>now\<close>, whatever the remaining fields of the Runner.
\<close>

theorem IsRegisterable_fresh_true:
  "(RunnerStatusRegistration.Repository (Registration (Status r)) = RunnerSpec.Repository (Spec r)
      \<and> Token (Registration (Status r)) \<noteq> ''''
      \<and> UnixNano now < UnixNano (ExpiresAt (Registration (Status r)))
     \<longrightarrow> IsRegisterable r now = True)
   \<and> IsRegisterable
        (r\<lparr>Spec := (Spec r)\<lparr>RunnerSpec.Repository := ''org/repo''\<rparr>,
           Status := (Status r)\<lparr>Registration := (Registration (Status r))
             \<lparr>RunnerStatusRegistration.Repository := ''org/repo'', Token := ''abc'',
              ExpiresAt := Time (UnixNano now + time_Hour)\<rparr>\<rparr>\<rparr>)
        now = True"
  by (simp add: IsRegisterable_def durations)

text \<open>Witness for C5: the Runner of scenario A, built from the zero values.\<close>

theorem IsRegisterable_fresh_true_witness:
  "(RunnerStatusRegistration.Repository (Registration (Status
      (Runner_zero\<lparr>Spec := RunnerSpec_zero\<lparr>RunnerSpec.Repository := ''org/repo''\<rparr>,
         Status := RunnerStatus_zero\<lparr>Registration := RunnerStatusRegistration_zero
           \<lparr>RunnerStatusRegistration.Repository := ''org/repo'', Token := ''abc'',
          ExpiresAt := Time (1609459200000000000 + time_Hour)\<rparr>\<rparr>\<rparr>)))
     = RunnerSpec.Repository (Spec
      (Runner_zero\<lparr>Spec := RunnerSpec_zero\<lparr>RunnerSpec.Repository := ''org/repo''\<rparr>,
         Status := RunnerStatus_zero\<lparr>Registration := RunnerStatusRegistration_zero
           \<lparr>RunnerStatusRegistration.Repository := ''org/repo'', Token := ''abc'',
          ExpiresAt := Time (1609459200000000000 + time_Hour)\<rparr>\<rparr>\<rparr>))
    \<and> Token (Registration (Status
      (Runner_zero\<lparr>Spec := RunnerSpec_zero\<lparr>RunnerSpec.Repository := ''org/repo''\<rparr>,
         Status := RunnerStatus_zero\<lparr>Registration := RunnerStatusRegistration_zero
           \<lparr>RunnerStatusRegistration.Repository := ''org/repo'', Token := ''abc'',
          ExpiresAt := Time (1609459200000000000 + time_Hour)\<rparr>\<rparr>\<rparr>))) \<noteq> ''''
    \<and> UnixNano (Time 1609459200000000000) < UnixNano (ExpiresAt (Registration (Status
      (Runner_zero\<lparr>Spec := RunnerSpec_zero\<lparr>RunnerSpec.Repository := ''org/repo''\<rparr>,
         Status := RunnerStatus_zero\<lparr>Registration := RunnerStatusRegistration_zero
           \<lparr>RunnerStatusRegistration.Repository := ''org/repo'', Token := ''abc'',
          ExpiresAt := Time (1609459200000000000 + time_Hour)\<rparr>\<rparr>\<rparr>)))))
   \<and> IsRegisterable
      (Runner_zero\<lparr>Spec := RunnerSpec_zero\<lparr>RunnerSpec.Repository := ''org/repo''\<rparr>,
         Status := RunnerStatus_zero\<lparr>Registration := RunnerStatusRegistration_zero
           \<lparr>RunnerStatusRegistration.Repository := ''org/repo'', Token := ''abc'',
          ExpiresAt := Time (1609459200000000000 + time_Hour)\<rparr>\<rparr>\<rparr>)
      (Time 1609459200000000000) = True"
proof -
  let ?r = "(Runner_zero\<lparr>Spec := RunnerSpec_zero\<lparr>RunnerSpec.Repository := ''org/repo''\<rparr>,
         Status := RunnerStatus_zero\<lparr>Registration := RunnerStatusRegistration_zero
           \<lparr>RunnerStatusRegistration.Repository := ''org/repo'', Token := ''abc'',
          ExpiresAt := Time (1609459200000000000 + time_Hour)\<rparr>\<rparr>\<rparr>)"
  let ?now = "Time 1609459200000000000"
  have h: "RunnerStatusRegistration.Repository (Registration (Status ?r)) = RunnerSpec.Repository (Spec ?r)
      \<and> Token (Registration (Status ?r)) \<noteq> ''''
      \<and> UnixNano ?now < UnixNano (ExpiresAt (Registration (Status ?r)))"
    by (simp add: zero_values durations)
  from IsRegisterable_fresh_true [of ?r ?now] have
    "RunnerStatusRegistration.Repository (Registration (Status ?r)) = RunnerSpec.Repository (Spec ?r)
      \<and> Token (Registration (Status ?r)) \<noteq> ''''
      \<and> UnixNano ?now < UnixNano (ExpiresAt (Registration (Status ?r)))
     \<longrightarrow> IsRegisterable ?r ?now = True"
    by (rule conjunct1)
  from this h have "IsRegisterable ?r ?now = True" by (rule mp)
  with h show ?thesis by (rule conjI)
qed

subsection \<open>ValidateRepository\<close>

text \<open>
  C6. For every spec whose enterprise, organization and repository are all empty,
  \<^verbatim>\<open>ValidateRepository\<close> fails: it returns the error with the message
  \<^verbatim>\<open>Spec needs enterprise, organization or repository\<close>, the missing-scope error.
\<close>

theorem ValidateRepository_missing_scope:
  assumes "RunnerSpec.Enterprise rs = ''''"
    and "RunnerSpec.Organization rs = ''''"
    and "RunnerSpec.Repository rs = ''''"
  shows "ValidateRepository rs =
    Some (errors_New ''Spec needs enterprise, organization or repository'')"
  using assms by (simp add: ValidateRepository_def)

text \<open>
  Witness for C6: a spec with labels, a group and an image, but no scope field.
\<close>

theorem ValidateRepository_missing_scope_witness:
  "RunnerSpec.Enterprise
      (RunnerSpec_zero\<lparr>RunnerSpec.Labels := [''linux''], Group := ''pool'', Image := ''runner:latest''\<rparr>) = ''''
   \<and> ValidateRepository
      (RunnerSpec_zero\<lparr>RunnerSpec.Labels := [''linux''], Group := ''pool'', Image := ''runner:latest''\<rparr>) =
     Some (errors_New ''Spec needs enterprise, organization or repository'')"
proof -
  let ?rs = "RunnerSpec_zero\<lparr>RunnerSpec.Labels := [''linux''], Group := ''pool'', Image := ''runner:latest''\<rparr>"
  have h1: "RunnerSpec.Enterprise ?rs = ''''"
    and h2: "RunnerSpec.Organization ?rs = ''''"
    and h3: "RunnerSpec.Repository ?rs = ''''"
    by (simp_all add: RunnerSpec_zero_def)
  from h1 ValidateRepository_missing_scope [OF h1 h2 h3] show ?thesis by (rule conjI)
qed

text \<open>
  C7. For every spec in which two or three of enterprise, organization and repository are
  non-empty, \<^verbatim>\<open>ValidateRepository\<close> fails with the error whose message is
  \<^verbatim>\<open>Spec cannot have many fields defined enterprise, organization and repository\<close>, the
  ambiguous-scope error. Scenario D (enterprise \<^verbatim>\<open>acme\<close> and organization \<^verbatim>\<open>acme\<close>) is the
  witness below.
\<close>

theorem ValidateRepository_ambiguous_scope:
  assumes "(RunnerSpec.Enterprise rs \<noteq> '''' \<and> RunnerSpec.Organization rs \<noteq> '''')
    \<or> (RunnerSpec.Enterprise rs \<noteq> '''' \<and> RunnerSpec.Repository rs \<noteq> '''')
    \<or> (RunnerSpec.Organization rs \<noteq> '''' \<and> RunnerSpec.Repository rs \<noteq> '''')"
  shows "ValidateRepository rs =
    Some (errors_New ''Spec cannot have many fields defined enterprise, organization and repository'')"
  using assms by (auto simp add: ValidateRepository_def)

text \<open>Witness for C7: scenario D.\<close>

theorem ValidateRepository_ambiguous_scope_witness:
  "(RunnerSpec.Enterprise
       (RunnerSpec_zero\<lparr>RunnerSpec.Enterprise := ''acme'', RunnerSpec.Organization := ''acme''\<rparr>) \<noteq> ''''
     \<and> RunnerSpec.Organization
       (RunnerSpec_zero\<lparr>RunnerSpec.Enterprise := ''acme'', RunnerSpec.Organization := ''acme''\<rparr>) \<noteq> '''')
   \<and> ValidateRepository
       (RunnerSpec_zero\<lparr>RunnerSpec.Enterprise := ''acme'', RunnerSpec.Organization := ''acme''\<rparr>) =
     Some (errors_New ''Spec cannot have many fields defined enterprise, organization and repository'')"
proof -
  let ?rs = "RunnerSpec_zero\<lparr>RunnerSpec.Enterprise := ''acme'', RunnerSpec.Organization := ''acme''\<rparr>"
  have h: "RunnerSpec.Enterprise ?rs \<noteq> '''' \<and> RunnerSpec.Organization ?rs \<noteq> ''''"
    by simp
  then have "(RunnerSpec.Enterprise ?rs \<noteq> '''' \<and> RunnerSpec.Organization ?rs \<noteq> '''')
    \<or> (RunnerSpec.Enterprise ?rs \<noteq> '''' \<and> RunnerSpec.Repository ?rs \<noteq> '''')
    \<or> (RunnerSpec.Organization ?rs \<noteq> '''' \<and> RunnerSpec.Repository ?rs \<noteq> '''')"
    by (rule disjI1)
  from h ValidateRepository_ambiguous_scope [OF this] show ?thesis by (rule conjI)
qed

text \<open>
  C8. For every spec in which exactly one of enterprise, organization and repository is
  non-empty, \<^verbatim>\<open>ValidateRepository\<close> succeeds: it returns \<^verbatim>\<open>nil\<close>, whatever the other
  fields of the spec.
\<close>

theorem ValidateRepository_single_scope:
  assumes "(RunnerSpec.Enterprise rs \<noteq> '''' \<and> RunnerSpec.Organization rs = ''''
      \<and> RunnerSpec.Repository rs = '''')
    \<or> (RunnerSpec.Enterprise rs = '''' \<and> RunnerSpec.Organization rs \<noteq> ''''
      \<and> RunnerSpec.Repository rs = '''')
    \<or> (RunnerSpec.Enterprise rs = '''' \<and> RunnerSpec.Organization rs = ''''
      \<and> RunnerSpec.Repository rs \<noteq> '''')"
  shows "ValidateRepository rs = None"
  using assms by (auto simp add: ValidateRepository_def)

text \<open>
  Witness for C8: only the repository is set; labels and the ephemeral flag are set too.
\<close>

theorem ValidateRepository_single_scope_witness:
  "(RunnerSpec.Enterprise
       (RunnerSpec_zero\<lparr>RunnerSpec.Repository := ''org/repo'', RunnerSpec.Labels := [''gpu''],
          Ephemeral := Some True\<rparr>) = ''''
     \<and> RunnerSpec.Organization
       (RunnerSpec_zero\<lparr>RunnerSpec.Repository := ''org/repo'', RunnerSpec.Labels := [''gpu''],
          Ephemeral := Some True\<rparr>) = ''''
     \<and> RunnerSpec.Repository
       (RunnerSpec_zero\<lparr>RunnerSpec.Repository := ''org/repo'', RunnerSpec.Labels := [''gpu''],
          Ephemeral := Some True\<rparr>) \<noteq> '''')
   \<and> ValidateRepository
       (RunnerSpec_zero\<lparr>RunnerSpec.Repository := ''org/repo'', RunnerSpec.Labels := [''gpu''],
          Ephemeral := Some True\<rparr>) = None"
proof -
  let ?rs = "RunnerSpec_zero\<lparr>RunnerSpec.Repository := ''org/repo'', RunnerSpec.Labels := [''gpu''],
          Ephemeral := Some True\<rparr>"
  have h: "RunnerSpec.Enterprise ?rs = '''' \<and> RunnerSpec.Organization ?rs = ''''
      \<and> RunnerSpec.Repository ?rs \<noteq> ''''"
    by (simp add: RunnerSpec_zero_def)
  then have "(RunnerSpec.Enterprise ?rs \<noteq> '''' \<and> RunnerSpec.Organization ?rs = ''''
      \<and> RunnerSpec.Repository ?rs = '''')
    \<or> (RunnerSpec.Enterprise ?rs = '''' \<and> RunnerSpec.Organization ?rs \<noteq> ''''
      \<and> RunnerSpec.Repository ?rs = '''')
    \<or> (RunnerSpec.Enterprise ?rs = '''' \<and> RunnerSpec.Organization ?rs = ''''
      \<and> RunnerSpec.Repository ?rs \<noteq> '''')"
    by (intro disjI2)
  from h ValidateRepository_single_scope [OF this] show ?thesis by (rule conjI)
qed

text \<open>
  C10. \<^verbatim>\<open>ValidateRepository\<close> reads only the enterprise, organization and repository
  fields: two specs that agree on these three fields get the same result, however they
  differ in labels, group, ephemeral flag or any container or pod field.
\<close>

theorem ValidateRepository_reads_scope_only:
  assumes "RunnerSpec.Enterprise rs' = RunnerSpec.Enterprise rs"
    and "RunnerSpec.Organization rs' = RunnerSpec.Organization rs"
    and "RunnerSpec.Repository rs' = RunnerSpec.Repository rs"
  shows "ValidateRepository rs' = ValidateRepository rs"
  using assms by (simp add: ValidateRepository_def)

text \<open>
  Witness for C10: two organization-scoped specs that differ in labels, group, ephemeral
  flag, image, working directory, node selector and Docker settings.
\<close>

theorem ValidateRepository_reads_scope_only_witness:
  "RunnerSpec_zero\<lparr>RunnerSpec.Organization := ''acme'', RunnerSpec.Labels := [''linux'', ''x64''],
       Group := ''pool-a'', Ephemeral := Some True, Image := ''runner:v2'', WorkDir := ''/work'',
       NodeSelector := [''disk'' \<mapsto> ''ssd''], DockerEnabled := Some False,
       DockerMTU := Some 1400\<rparr>
     \<noteq> RunnerSpec_zero\<lparr>RunnerSpec.Organization := ''acme''\<rparr>
   \<and> ValidateRepository
      (RunnerSpec_zero\<lparr>RunnerSpec.Organization := ''acme'', RunnerSpec.Labels := [''linux'', ''x64''],
         Group := ''pool-a'', Ephemeral := Some True, Image := ''runner:v2'', WorkDir := ''/work'',
         NodeSelector := [''disk'' \<mapsto> ''ssd''], DockerEnabled := Some False,
         DockerMTU := Some 1400\<rparr>)
     = ValidateRepository (RunnerSpec_zero\<lparr>RunnerSpec.Organization := ''acme''\<rparr>)"
proof -
  let ?rs' = "RunnerSpec_zero\<lparr>RunnerSpec.Organization := ''acme'', RunnerSpec.Labels := [''linux'', ''x64''],
       Group := ''pool-a'', Ephemeral := Some True, Image := ''runner:v2'', WorkDir := ''/work'',
       NodeSelector := [''disk'' \<mapsto> ''ssd''], DockerEnabled := Some False,
       DockerMTU := Some 1400\<rparr>"
  let ?rs = "RunnerSpec_zero\<lparr>RunnerSpec.Organization := ''acme''\<rparr>"
  have h1: "RunnerSpec.Enterprise ?rs' = RunnerSpec.Enterprise ?rs"
    and h2: "RunnerSpec.Organization ?rs' = RunnerSpec.Organization ?rs"
    and h3: "RunnerSpec.Repository ?rs' = RunnerSpec.Repository ?rs"
    by simp_all
  have "Group ?rs' \<noteq> Group ?rs"
    by (simp add: RunnerSpec_zero_def)
  then have d: "?rs' \<noteq> ?rs"
    by (rule contrapos_nn) (erule arg_cong)
  from d ValidateRepository_reads_scope_only [OF h1 h2 h3] show ?thesis by (rule conjI)
qed

subsection \<open>Both operations\<close>

text \<open>
  C9. Both operations are deterministic, and their outcome depends on nothing but their
  input and, for \<^verbatim>\<open>IsRegisterable\<close>, the clock reading. The embedding makes each operation
  a function of exactly these arguments: the code keeps no state between calls, writes no
  field, and reads nothing else than the clock. The theorem states the dependency as the
  code has it. Two evaluations of \<^verbatim>\<open>ValidateRepository\<close> on specs with the same enterprise,
  organization and repository yield identical results, and two evaluations of
  \<^verbatim>\<open>IsRegisterable\<close> at the same instant \<open>now\<close>, on Runners with the same spec
  repository and the same registration repository, token and \<^verbatim>\<open>ExpiresAt\<close>, yield the same
  boolean. Two evaluations on one and the same input are the special case \<open>rs' = rs\<close>,
  \<open>r' = r\<close>.
\<close>

theorem evaluations_deterministic:
  assumes "RunnerSpec.Enterprise rs' = RunnerSpec.Enterprise rs"
    and "RunnerSpec.Organization rs' = RunnerSpec.Organization rs"
    and "RunnerSpec.Repository rs' = RunnerSpec.Repository rs"
    and "RunnerSpec.Repository (Spec r') = RunnerSpec.Repository (Spec r)"
    and "RunnerStatusRegistration.Repository (Registration (Status r')) =
         RunnerStatusRegistration.Repository (Registration (Status r))"
    and "Token (Registration (Status r')) = Token (Registration (Status r))"
    and "ExpiresAt (Registration (Status r')) = ExpiresAt (Registration (Status r))"
  shows "ValidateRepository rs' = ValidateRepository rs
    \<and> IsRegisterable r' now = IsRegisterable r now"
  using assms by (simp add: ValidateRepository_def IsRegisterable_def)

text \<open>
  Witness for C9: a second spec that differs from the first in its group only, and a
  second Runner that differs from the Runner of scenario A in its name and phase only,
  evaluated at the clock reading of the examples.
\<close>

theorem evaluations_deterministic_witness:
  "RunnerSpec.Repository (RunnerSpec_zero\<lparr>RunnerSpec.Repository := ''org/repo'', Group := ''pool''\<rparr>)
     = RunnerSpec.Repository (RunnerSpec_zero\<lparr>RunnerSpec.Repository := ''org/repo''\<rparr>)
   \<and> ValidateRepository (RunnerSpec_zero\<lparr>RunnerSpec.Repository := ''org/repo'', Group := ''pool''\<rparr>)
     = ValidateRepository (RunnerSpec_zero\<lparr>RunnerSpec.Repository := ''org/repo''\<rparr>)
   \<and> IsRegisterable
      ((Runner_zero\<lparr>Spec := RunnerSpec_zero\<lparr>RunnerSpec.Repository := ''org/repo''\<rparr>,
         Status := RunnerStatus_zero\<lparr>Registration := RunnerStatusRegistration_zero
           \<lparr>RunnerStatusRegistration.Repository := ''org/repo'', Token := ''abc'',
          ExpiresAt := Time (1609459200000000000 + time_Hour)\<rparr>\<rparr>\<rparr>)
        \<lparr>ObjectMeta := \<lparr>Name = ''runner-1'', Namespace = ''ci''\<rparr>,
         Status := (Status (Runner_zero\<lparr>Spec := RunnerSpec_zero\<lparr>RunnerSpec.Repository := ''org/repo''\<rparr>,
         Status := RunnerStatus_zero\<lparr>Registration := RunnerStatusRegistration_zero
           \<lparr>RunnerStatusRegistration.Repository := ''org/repo'', Token := ''abc'',
          ExpiresAt := Time (1609459200000000000 + time_Hour)\<rparr>\<rparr>\<rparr>))\<lparr>Phase := ''Running''\<rparr>\<rparr>)
      (Time 1609459200000000000)
     = IsRegisterable
      (Runner_zero\<lparr>Spec := RunnerSpec_zero\<lparr>RunnerSpec.Repository := ''org/repo''\<rparr>,
         Status := RunnerStatus_zero\<lparr>Registration := RunnerStatusRegistration_zero
           \<lparr>RunnerStatusRegistration.Repository := ''org/repo'', Token := ''abc'',
          ExpiresAt := Time (1609459200000000000 + time_Hour)\<rparr>\<rparr>\<rparr>)
      (Time 1609459200000000000)"
proof -
  let ?rs' = "RunnerSpec_zero\<lparr>RunnerSpec.Repository := ''org/repo'', Group := ''pool''\<rparr>"
  let ?rs = "RunnerSpec_zero\<lparr>RunnerSpec.Repository := ''org/repo''\<rparr>"
  let ?r = "(Runner_zero\<lparr>Spec := RunnerSpec_zero\<lparr>RunnerSpec.Repository := ''org/repo''\<rparr>,
         Status := RunnerStatus_zero\<lparr>Registration := RunnerStatusRegistration_zero
           \<lparr>RunnerStatusRegistration.Repository := ''org/repo'', Token := ''abc'',
          ExpiresAt := Time (1609459200000000000 + time_Hour)\<rparr>\<rparr>\<rparr>)"
  let ?r' = "?r\<lparr>ObjectMeta := \<lparr>Name = ''runner-1'', Namespace = ''ci''\<rparr>,
         Status := (Status ?r)\<lparr>Phase := ''Running''\<rparr>\<rparr>"
  have h1: "RunnerSpec.Enterprise ?rs' = RunnerSpec.Enterprise ?rs"
    and h2: "RunnerSpec.Organization ?rs' = RunnerSpec.Organization ?rs"
    and h3: "RunnerSpec.Repository ?rs' = RunnerSpec.Repository ?rs"
    and h4: "RunnerSpec.Repository (Spec ?r') = RunnerSpec.Repository (Spec ?r)"
    and h5: "RunnerStatusRegistration.Repository (Registration (Status ?r')) =
         RunnerStatusRegistration.Repository (Registration (Status ?r))"
    and h6: "Token (Registration (Status ?r')) = Token (Registration (Status ?r))"
    and h7: "ExpiresAt (Registration (Status ?r')) = ExpiresAt (Registration (Status ?r))"
    by simp_all
  from h3 evaluations_deterministic [OF h1 h2 h3 h4 h5 h6 h7]
  show ?thesis by (rule conjI)
qed

end
